theory Spec2Isabelle
  imports Complex_Main
begin

section \<open>Data model of \<open>EmployeeDashboard.tsx\<close>\<close>

text \<open>
  The four string enums of the source. Each \<open>*_str\<close> function gives the string value the
  enum member has at run time.
\<close>

datatype Department = Engineering | HR | Sales | Marketing | Finance | Operations

fun Department_str :: "Department \<Rightarrow> string" where
  "Department_str Engineering = ''Engineering''"
| "Department_str HR = ''HR''"
| "Department_str Sales = ''Sales''"
| "Department_str Marketing = ''Marketing''"
| "Department_str Finance = ''Finance''"
| "Department_str Operations = ''Operations''"

datatype Role = Engineer | SeniorEngineer | Manager | HRManager | Recruiter | SalesRep
  | Marketer | Accountant | OperationsAnalyst

fun Role_str :: "Role \<Rightarrow> string" where
  "Role_str Engineer = ''Engineer''"
| "Role_str SeniorEngineer = ''Senior Engineer''"
| "Role_str Manager = ''Manager''"
| "Role_str HRManager = ''HR Manager''"
| "Role_str Recruiter = ''Recruiter''"
| "Role_str SalesRep = ''Sales Rep''"
| "Role_str Marketer = ''Marketer''"
| "Role_str Accountant = ''Accountant''"
| "Role_str OperationsAnalyst = ''Operations Analyst''"

datatype Status = Active | Probation | OnLeave | Inactive

fun Status_str :: "Status \<Rightarrow> string" where
  "Status_str Active = ''Active''"
| "Status_str Probation = ''Probation''"
| "Status_str OnLeave = ''On Leave''"
| "Status_str Inactive = ''Inactive''"

datatype ContractType = Permanent | Contract | Intern

fun ContractType_str :: "ContractType \<Rightarrow> string" where
  "ContractType_str Permanent = ''Permanent''"
| "ContractType_str Contract = ''Contract''"
| "ContractType_str Intern = ''Intern''"

text \<open>\<open>ContactInfo = PhoneEmail & EmergencyContact\<close>: the intersection has the four fields.\<close>

record ContactInfo =
  phone :: string
  email :: string
  emergencyName :: string
  emergencyPhone :: string

text \<open>
  \<open>EmployeeBase\<close>; the optional properties \<open>supervisor?\<close> and \<open>photoUrl?\<close> are
  \<open>None\<close> when the property is absent.
\<close>

record EmployeeBase =
  name :: string
  employeeId :: string
  department :: Department
  role :: Role
  supervisor :: "string option"
  status :: Status
  contractType :: ContractType
  hireDate :: string
  contact :: ContactInfo
  photoUrl :: "string option"

text \<open>\<open>Employee extends EmployeeBase\<close> with the internal \<open>id\<close> (named \<open>id_emp\<close> here).\<close>

record Employee = EmployeeBase +
  id_emp :: string

text \<open>
  The form state is declared \<open>EmployeeBase\<close>, but \<open>startEdit\<close> stores \<open>{ ...e }\<close> in it,
  a copy of an \<open>Employee\<close> that carries the property \<open>id\<close> as well; the field edits
  (\<open>{ ...form, name: v }\<close>) keep it. \<open>form_id\<close> is that property, \<open>None\<close> when absent.
\<close>

record FormDraft = EmployeeBase +
  form_id :: "string option"

datatype UserRole = Admin | Viewer

datatype SortKey = SK_name | SK_hireDate | SK_employeeId

datatype SortDir = Asc | Desc

text \<open>The \<open>useState\<close> cells of the component that the core logic reads or writes.\<close>

record Dashboard =
  userRole :: UserRole
  employees :: "Employee list"
  q :: string
  fDept :: string
  fRole :: string
  fStatus :: string
  fContract :: string
  sortKey :: SortKey
  sortDir :: SortDir
  form :: FormDraft
  editingId :: "string option"

section \<open>Export\<close>

text \<open>\<open>Array.prototype.join\<close> on strings.\<close>

fun join :: "string \<Rightarrow> string list \<Rightarrow> string" where
  "join sep [] = []"
| "join sep [x] = x"
| "join sep (x # y # ys) = x @ sep @ join sep (y # ys)"

text \<open>
  \<open>esc\<close> of \<open>toCSV\<close>: \<open>String(v ?? "")\<close> with every double quote (character 0x22) doubled,
  between two double quotes. A cell is \<open>None\<close> for \<open>undefined\<close>; the \<open>number\<close> alternative of
  the parameter type is never produced by \<open>exportCSV\<close>, the only caller, and is left out.
\<close>

definition dquote :: char where
  "dquote = CHR 0x22"

definition esc :: "string option \<Rightarrow> string" where
  "esc v = [dquote] @
     concat (map (\<lambda>c. if c = dquote then [dquote, dquote] else [c])
                 (case v of None \<Rightarrow> [] | Some s \<Rightarrow> s)) @ [dquote]"

text \<open>
  A row object is its list of own properties in insertion order, which is the order
  \<open>Object.keys\<close> returns for non-numeric property names. \<open>r[h]\<close> is \<open>undefined\<close> when the row
  has no property \<open>h\<close>.
\<close>

type_synonym csv_row = "(string \<times> string option) list"

definition row_get :: "csv_row \<Rightarrow> string \<Rightarrow> string option" where
  "row_get r h = (case map_of r h of None \<Rightarrow> None | Some v \<Rightarrow> v)"

definition toCSV :: "csv_row list \<Rightarrow> string" where
  "toCSV rows =
     (case rows of
        [] \<Rightarrow> []
      | r0 # _ \<Rightarrow>
          (let headers = map fst r0
           in join [CHR 0x0A]
                (join '','' headers #
                 map (\<lambda>r. join '','' (map (\<lambda>h. esc (row_get r h)) headers)) rows)))"

text \<open>The object literal that \<open>exportCSV\<close> builds for one employee.\<close>

definition csv_row_of :: "Employee \<Rightarrow> csv_row" where
  "csv_row_of e =
     [(''id'', Some (id_emp e)),
      (''name'', Some (name e)),
      (''employeeId'', Some (employeeId e)),
      (''department'', Some (Department_str (department e))),
      (''role'', Some (Role_str (role e))),
      (''supervisor'', Some (case supervisor e of None \<Rightarrow> [] | Some v \<Rightarrow> v)),
      (''status'', Some (Status_str (status e))),
      (''contractType'', Some (ContractType_str (contractType e))),
      (''hireDate'', Some (hireDate e)),
      (''email'', Some (email (contact e))),
      (''phone'', Some (phone (contact e))),
      (''emergencyName'', Some (emergencyName (contact e))),
      (''emergencyPhone'', Some (emergencyPhone (contact e))),
      (''photoUrl'', Some (case photoUrl e of None \<Rightarrow> [] | Some v \<Rightarrow> v))]"

text \<open>\<open>exportCSV\<close>: the text of the blob offered as \<open>employees.csv\<close>.\<close>

definition exportCSV :: "Dashboard \<Rightarrow> string" where
  "exportCSV s = toCSV (map csv_row_of (employees s))"

section \<open>Mutation: \<open>startAdd\<close>, \<open>startEdit\<close>, \<open>remove\<close>, \<open>upsert\<close>\<close>

text \<open>
  What a handler does besides updating the state cells: \<open>e.preventDefault()\<close>, an
  \<open>alert\<close> with its message, a \<open>confirm\<close> with its message. The handlers return
  \<open>undefined\<close> on every path, so the new state and these calls are all a caller observes.
\<close>

datatype effect = PreventDefault | Alert string | Confirm string

definition canEdit :: "Dashboard \<Rightarrow> bool" where
  "canEdit s = (userRole s = Admin)"

text \<open>
  \<open>emptyForm\<close>; \<open>today\<close> is \<open>new Date().toISOString().slice(0, 10)\<close>, read from the clock.
\<close>

definition emptyForm :: "string \<Rightarrow> FormDraft" where
  "emptyForm today =
     \<lparr>name = [], employeeId = [], department = Engineering, role = Engineer,
      supervisor = Some [], status = Active, contractType = Permanent, hireDate = today,
      contact = \<lparr>phone = [], email = [], emergencyName = [], emergencyPhone = []\<rparr>,
      photoUrl = Some [], form_id = None\<rparr>"

definition startAdd :: "string \<Rightarrow> Dashboard \<Rightarrow> Dashboard" where
  "startAdd today s = s\<lparr>editingId := None, form := emptyForm today\<rparr>"

text \<open>\<open>{ ...e }\<close>: the copy of an employee that \<open>startEdit\<close> puts into the form.\<close>

definition form_of :: "Employee \<Rightarrow> FormDraft" where
  "form_of e =
     \<lparr>name = name e, employeeId = employeeId e, department = department e, role = role e,
      supervisor = supervisor e, status = status e, contractType = contractType e,
      hireDate = hireDate e, contact = contact e, photoUrl = photoUrl e,
      form_id = Some (id_emp e)\<rparr>"

definition startEdit :: "string \<Rightarrow> Dashboard \<Rightarrow> Dashboard" where
  "startEdit i s =
     (case find (\<lambda>x. id_emp x = i) (employees s) of
        None \<Rightarrow> s
      | Some e \<Rightarrow> s\<lparr>editingId := Some i, form := form_of e\<rparr>)"

text \<open>
  \<open>remove\<close> (named \<open>remove_emp\<close> here). \<open>answer\<close> is what the user answers to the
  \<open>confirm\<close> dialog, which is only shown when the role check has passed.
\<close>

definition remove_emp :: "bool \<Rightarrow> string \<Rightarrow> Dashboard \<Rightarrow> Dashboard \<times> effect list" where
  "remove_emp answer i s =
     (if \<not> canEdit s then (s, [])
      else if answer
        then (s\<lparr>employees := filter (\<lambda>x. id_emp x \<noteq> i) (employees s)\<rparr>,
              [Confirm ''Delete this employee?''])
        else (s, [Confirm ''Delete this employee?'']))"

text \<open>
  \<open>{ ...x, ...form }\<close>: every property the form has overrides the one of \<open>x\<close>; an optional
  property the form lacks keeps the value of \<open>x\<close>.
\<close>

definition merge_form :: "Employee \<Rightarrow> FormDraft \<Rightarrow> Employee" where
  "merge_form x f =
     \<lparr>name = name f, employeeId = employeeId f, department = department f, role = role f,
      supervisor = (case supervisor f of None \<Rightarrow> supervisor x | Some v \<Rightarrow> Some v),
      status = status f, contractType = contractType f, hireDate = hireDate f,
      contact = contact f,
      photoUrl = (case photoUrl f of None \<Rightarrow> photoUrl x | Some v \<Rightarrow> Some v),
      id_emp = (case form_id f of None \<Rightarrow> id_emp x | Some i \<Rightarrow> i)\<rparr>"

text \<open>\<open>{ id: uid(), ...form }\<close>; \<open>newId\<close> is what \<open>uid()\<close> returns.\<close>

definition new_employee :: "string \<Rightarrow> FormDraft \<Rightarrow> Employee" where
  "new_employee newId f =
     \<lparr>name = name f, employeeId = employeeId f, department = department f, role = role f,
      supervisor = supervisor f, status = status f, contractType = contractType f,
      hireDate = hireDate f, contact = contact f, photoUrl = photoUrl f,
      id_emp = (case form_id f of None \<Rightarrow> newId | Some i \<Rightarrow> i)\<rparr>"

definition alert_msg :: string where
  "alert_msg = ''Please fill name, employee ID and email.''"

text \<open>
  \<open>upsert\<close>. The tests \<open>!form.name\<close>, \<open>!form.employeeId\<close>, \<open>!form.contact.email\<close> hold of the
  empty string; \<open>if (editingId)\<close> fails for \<open>null\<close> and for the empty string.
\<close>

definition upsert :: "string \<Rightarrow> string \<Rightarrow> Dashboard \<Rightarrow> Dashboard \<times> effect list" where
  "upsert newId today s =
     (if \<not> canEdit s then (s, [PreventDefault])
      else if name (form s) = [] \<or> employeeId (form s) = [] \<or> email (contact (form s)) = []
        then (s, [PreventDefault, Alert alert_msg])
      else
        (let emps =
           (case editingId s of
              None \<Rightarrow> new_employee newId (form s) # employees s
            | Some i \<Rightarrow>
                if i \<noteq> []
                then map (\<lambda>x. if id_emp x = i then merge_form x (form s) else x) (employees s)
                else new_employee newId (form s) # employees s)
         in (s\<lparr>employees := emps, editingId := None, form := emptyForm today\<rparr>,
             [PreventDefault])))"

section \<open>Query view: \<open>sortByKey\<close> and \<open>filtered\<close>\<close>

text \<open>
  The string functions of the JavaScript library that depend on Unicode tables or on the
  locale are parameters: \<open>localeCompare\<close>, \<open>toLowerCase\<close> and \<open>trim\<close>. So is
  \<open>engine_sort\<close>: what the engine's \<open>Array.prototype.sort\<close> returns, on a copy of the
  array, for a comparator that is not consistent. ECMAScript leaves that order to the
  implementation, and engines differ in it.
\<close>

record JsEnv =
  localeCompare :: "string \<Rightarrow> string \<Rightarrow> int"
  toLowerCase :: "string \<Rightarrow> string"
  trim :: "string \<Rightarrow> string"
  engine_sort :: "(Employee \<Rightarrow> Employee \<Rightarrow> int) \<Rightarrow> Employee list \<Rightarrow> Employee list"

text \<open>\<open>hay.includes(needle)\<close>: \<open>needle\<close> occurs in \<open>hay\<close> as a contiguous substring.\<close>

fun str_includes :: "string \<Rightarrow> string \<Rightarrow> bool" where
  "str_includes [] needle = (needle = [])"
| "str_includes (c # cs) needle =
     (take (length needle) (c # cs) = needle \<or> str_includes cs needle)"

text \<open>The relational operator \<open>>\<close> on two strings: lexicographic on the character codes.\<close>

fun str_gt :: "string \<Rightarrow> string \<Rightarrow> bool" where
  "str_gt [] b = False"
| "str_gt (x # xs) [] = True"
| "str_gt (x # xs) (y # ys) =
     (if (of_char x :: nat) = of_char y then str_gt xs ys else (of_char y :: nat) < of_char x)"

text \<open>
  \<open>Array.prototype.sort(cmp)\<close> on a copy of the array, for a consistent comparator.
  ECMAScript requires the sort to be stable and then fixes the result: the elements in
  ascending order of \<open>cmp\<close>, ties in their input order. Insertion from the right computes
  exactly that. It is used for the comparator of \<open>sortByKey\<close> only.
\<close>

fun insert_by :: "('a \<Rightarrow> 'a \<Rightarrow> int) \<Rightarrow> 'a \<Rightarrow> 'a list \<Rightarrow> 'a list" where
  "insert_by cmp x [] = [x]"
| "insert_by cmp x (y # ys) = (if cmp x y \<le> 0 then x # y # ys else y # insert_by cmp x ys)"

fun js_sort :: "('a \<Rightarrow> 'a \<Rightarrow> int) \<Rightarrow> 'a list \<Rightarrow> 'a list" where
  "js_sort cmp [] = []"
| "js_sort cmp (x # xs) = insert_by cmp x (js_sort cmp xs)"

text \<open>
  The comparator of \<open>sortByKey\<close> for a string-valued key: 0 when the two values are
  identical, \<open>va.localeCompare(vb)\<close> otherwise. The fallback \<open>va > vb ? 1 : -1\<close> is for
  values that are not strings; the three keys the sort picker offers are all strings.
\<close>

definition key_cmp :: "(string \<Rightarrow> string \<Rightarrow> int) \<Rightarrow> ('a \<Rightarrow> string) \<Rightarrow> 'a \<Rightarrow> 'a \<Rightarrow> int" where
  "key_cmp lc key a b = (let va = key a; vb = key b in if va = vb then 0 else lc va vb)"

definition sortByKey ::
    "(string \<Rightarrow> string \<Rightarrow> int) \<Rightarrow> 'a list \<Rightarrow> ('a \<Rightarrow> string) \<Rightarrow> SortDir \<Rightarrow> 'a list" where
  "sortByKey lc arr key dir =
     (let sorted_arr = js_sort (key_cmp lc key) arr
      in if dir = Asc then sorted_arr else rev sorted_arr)"

fun key_of :: "SortKey \<Rightarrow> Employee \<Rightarrow> string" where
  "key_of SK_name = name"
| "key_of SK_hireDate = hireDate"
| "key_of SK_employeeId = employeeId"

text \<open>
  The comparator \<open>(a, b) => (a.hireDate > b.hireDate ? 1 : -1)\<close>. It never returns 0, so
  it is not consistent: two records with the same hire date are each reported to come
  before the other.
\<close>

definition hireDate_cmp :: "Employee \<Rightarrow> Employee \<Rightarrow> int" where
  "hireDate_cmp a b = (if str_gt (hireDate a) (hireDate b) then 1 else - 1)"

text \<open>The first half of \<open>filtered\<close>: the search and the four categorical filters.\<close>

definition matching :: "JsEnv \<Rightarrow> Dashboard \<Rightarrow> Employee list" where
  "matching env s =
     (let rows0 = employees s;
          rows1 = (if trim env (q s) \<noteq> []
                   then filter (\<lambda>e. list_ex (\<lambda>v. str_includes (toLowerCase env v)
                                                  (toLowerCase env (q s)))
                                     [name e, employeeId e, email (contact e)]) rows0
                   else rows0);
          rows2 = (if fDept s \<noteq> ''All''
                   then filter (\<lambda>e. Department_str (department e) = fDept s) rows1 else rows1);
          rows3 = (if fRole s \<noteq> ''All''
                   then filter (\<lambda>e. Role_str (role e) = fRole s) rows2 else rows2);
          rows4 = (if fStatus s \<noteq> ''All''
                   then filter (\<lambda>e. Status_str (status e) = fStatus s) rows3 else rows3);
          rows5 = (if fContract s \<noteq> ''All''
                   then filter (\<lambda>e. ContractType_str (contractType e) = fContract s) rows4
                   else rows4)
      in rows5)"

text \<open>
  \<open>filtered\<close>: the rows of the table. The \<open>hireDate\<close> branch sorts with the comparator
  that is not consistent, so its result is the engine's (\<open>engine_sort\<close>).
\<close>

definition filtered :: "JsEnv \<Rightarrow> Dashboard \<Rightarrow> Employee list" where
  "filtered env s =
     (let rows = matching env s
      in if sortKey s = SK_hireDate
         then (let sorted_rows = engine_sort env hireDate_cmp rows
               in if sortDir s = Desc then rev sorted_rows else sorted_rows)
         else sortByKey (localeCompare env) rows (key_of (sortKey s)) (sortDir s))"

section \<open>Aggregates\<close>

text \<open>
  \<open>new Date(iso).getTime()\<close> is the parameter \<open>getTime\<close>: the milliseconds since the epoch,
  an integer, or \<open>None\<close> for \<open>NaN\<close> (a string that is not a date). \<open>daysBetween\<close> is
  \<open>Math.round((b - a) / 86400000)\<close>; \<open>Math.round\<close> rounds to the nearest integer, a half
  upwards, which on the quotient of two integers is \<open>(2 * n + d) div (2 * d)\<close>. \<open>NaN\<close>
  propagates, and \<open>NaN <= 30\<close> is false. The timestamps of valid dates are integers that
  a double holds exactly, and near the threshold of the test \<open><= 30\<close> doubles are far
  finer than the steps of 1/86400000 between the exact quotients, so the rounding of
  the division does not change the outcome of the test.
\<close>

definition daysBetween :: "(string \<Rightarrow> int option) \<Rightarrow> string \<Rightarrow> string \<Rightarrow> int option" where
  "daysBetween getTime aIso bIso =
     (case getTime aIso of
        None \<Rightarrow> None
      | Some a \<Rightarrow>
          (case getTime bIso of
             None \<Rightarrow> None
           | Some b \<Rightarrow> Some ((2 * (b - a) + 86400000) div (2 * 86400000))))"

text \<open>\<open>newlyHired\<close>; \<open>nowIso\<close> is \<open>new Date().toISOString()\<close>.\<close>

definition is_new :: "(string \<Rightarrow> int option) \<Rightarrow> string \<Rightarrow> Employee \<Rightarrow> bool" where
  "is_new getTime nowIso e =
     (case daysBetween getTime (hireDate e) nowIso of None \<Rightarrow> False | Some d \<Rightarrow> d \<le> 30)"

definition newlyHired :: "(string \<Rightarrow> int option) \<Rightarrow> string \<Rightarrow> Dashboard \<Rightarrow> nat" where
  "newlyHired getTime nowIso s = length (filter (is_new getTime nowIso) (employees s))"

definition onProbation :: "Dashboard \<Rightarrow> nat" where
  "onProbation s = length (filter (\<lambda>e. status e = Probation) (employees s))"

section \<open>Persistence: \<open>isEmployee\<close>, \<open>loadJSON\<close>, \<open>saveJSON\<close> and the initial collection\<close>

text \<open>
  What \<open>JSON.parse\<close> can return. The declared type \<open>Employee[]\<close> of the loaded value is a
  cast: at run time it is whatever value the stored text denotes. An object is its list
  of properties, each name once.
\<close>

datatype json =
    JNull
  | JBool bool
  | JNum rat
  | JStr string
  | JArr "json list"
  | JObj "(string \<times> json) list"

text \<open>
  The one exception the loading code can raise: a property read on \<open>null\<close>, or a call of
  something that is not a function.
\<close>

datatype js_error = TypeError

text \<open>Truthiness of a value; \<open>None\<close> is \<open>undefined\<close>.\<close>

fun js_truthy :: "json option \<Rightarrow> bool" where
  "js_truthy None = False"
| "js_truthy (Some JNull) = False"
| "js_truthy (Some (JBool b)) = b"
| "js_truthy (Some (JNum n)) = (n \<noteq> 0)"
| "js_truthy (Some (JStr s)) = (s \<noteq> [])"
| "js_truthy (Some (JArr xs)) = True"
| "js_truthy (Some (JObj kvs)) = True"

fun js_typeof :: "json option \<Rightarrow> string" where
  "js_typeof None = ''undefined''"
| "js_typeof (Some JNull) = ''object''"
| "js_typeof (Some (JBool b)) = ''boolean''"
| "js_typeof (Some (JNum n)) = ''number''"
| "js_typeof (Some (JStr s)) = ''string''"
| "js_typeof (Some (JArr xs)) = ''object''"
| "js_typeof (Some (JObj kvs)) = ''object''"

text \<open>
  Reading the property \<open>k\<close> of a value other than \<open>null\<close>, for the property names the code
  reads as data (\<open>length\<close> and the field names of an employee): an object has its own
  properties, an array and a string have \<open>length\<close>, everything else is \<open>undefined\<close>.
\<close>

fun js_get :: "json \<Rightarrow> string \<Rightarrow> json option" where
  "js_get (JObj kvs) k = map_of kvs k"
| "js_get (JArr xs) k = (if k = ''length'' then Some (JNum (of_nat (length xs))) else None)"
| "js_get (JStr s) k = (if k = ''length'' then Some (JNum (of_nat (length s))) else None)"
| "js_get v k = None"

text \<open>The type guard \<open>isEmployee\<close>.\<close>

definition isEmployee :: "json \<Rightarrow> bool" where
  "isEmployee obj =
     (if \<not> js_truthy (Some obj) \<or> js_typeof (Some obj) \<noteq> ''object'' then False
      else js_typeof (js_get obj ''id'') = ''string'' \<and>
           js_typeof (js_get obj ''name'') = ''string'' \<and>
           js_typeof (js_get obj ''employeeId'') = ''string'' \<and>
           js_typeof (js_get obj ''department'') = ''string'' \<and>
           js_typeof (js_get obj ''role'') = ''string'' \<and>
           js_typeof (js_get obj ''status'') = ''string'' \<and>
           js_typeof (js_get obj ''contractType'') = ''string'' \<and>
           js_typeof (js_get obj ''hireDate'') = ''string'' \<and>
           js_typeof (js_get obj ''contact'') = ''object'')"

text \<open>
  \<open>localStorage\<close>: under each key no item, or a text. A text is told apart only by what
  \<open>JSON.parse\<close> does with it: it throws (\<open>Unparseable\<close>; the empty text is one of these), or
  it returns a value. The storage itself is taken to be available.
\<close>

datatype stored = Unparseable | Parsed json

type_synonym localStorage = "string \<Rightarrow> stored option"

definition LS_employees :: string where
  "LS_employees = ''uptick.employees''"

text \<open>
  \<open>loadJSON\<close>: the fallback when there is no item (or the empty text) and when
  \<open>JSON.parse\<close> throws, the parsed value otherwise.
\<close>

definition loadJSON :: "localStorage \<Rightarrow> string \<Rightarrow> json \<Rightarrow> json" where
  "loadJSON st key fallback =
     (case st key of
        None \<Rightarrow> fallback
      | Some Unparseable \<Rightarrow> fallback
      | Some (Parsed v) \<Rightarrow> v)"

text \<open>\<open>saveJSON\<close> stores the text of \<open>value\<close>, which parses back to \<open>value\<close>.\<close>

definition saveJSON :: "localStorage \<Rightarrow> string \<Rightarrow> json \<Rightarrow> localStorage" where
  "saveJSON st key v = st(key \<mapsto> Parsed v)"

text \<open>What \<open>JSON.stringify\<close> followed by \<open>JSON.parse\<close> makes of a value of a string enum
  and of an employee: absent optional properties stay absent.\<close>

definition ContactInfo_json :: "ContactInfo \<Rightarrow> json" where
  "ContactInfo_json c =
     JObj [(''phone'', JStr (phone c)), (''email'', JStr (email c)),
           (''emergencyName'', JStr (emergencyName c)),
           (''emergencyPhone'', JStr (emergencyPhone c))]"

definition Employee_json :: "Employee \<Rightarrow> json" where
  "Employee_json e =
     JObj ([(''id'', JStr (id_emp e)),
            (''name'', JStr (name e)),
            (''employeeId'', JStr (employeeId e)),
            (''department'', JStr (Department_str (department e))),
            (''role'', JStr (Role_str (role e)))] @
           (case supervisor e of None \<Rightarrow> [] | Some v \<Rightarrow> [(''supervisor'', JStr v)]) @
           [(''status'', JStr (Status_str (status e))),
            (''contractType'', JStr (ContractType_str (contractType e))),
            (''hireDate'', JStr (hireDate e)),
            (''contact'', ContactInfo_json (contact e))] @
           (case photoUrl e of None \<Rightarrow> [] | Some v \<Rightarrow> [(''photoUrl'', JStr v)]))"

text \<open>
  \<open>SEED\<close>. Each record takes its \<open>id\<close> from \<open>uid()\<close> and its \<open>hireDate\<close> from the clock
  (20, 120 and 60 days before the module was loaded); the three pairs are those values.
  The supervisor of the second record is the one character U+2014, here in UTF-8.
\<close>

definition SEED :: "string \<times> string \<Rightarrow> string \<times> string \<Rightarrow> string \<times> string \<Rightarrow> Employee list" where
  "SEED r1 r2 r3 =
     [\<lparr>name = ''Odesomi Kamorudeen'', employeeId = ''EMP-001'', department = Engineering,
       role = Engineer, supervisor = Some ''Sam Carter'', status = Active,
       contractType = Permanent, hireDate = snd r1,
       contact = \<lparr>phone = ''+2347069411772'', email = ''kodesomi93@gmail.com'',
                  emergencyName = ''kodesomi'', emergencyPhone = ''+2348022347871''\<rparr>,
       photoUrl = Some ''https://i.pravatar.cc/100?img=1'', id_emp = fst r1\<rparr>,
      \<lparr>name = ''Bolagbade Latunde'', employeeId = ''EMP-002'', department = HR,
       role = HRManager, supervisor = Some [CHR 0xE2, CHR 0x80, CHR 0x94], status = Active,
       contractType = Permanent, hireDate = snd r2,
       contact = \<lparr>phone = ''+234706884221'', email = ''latunde_2@gmail.com'',
                  emergencyName = ''Lilly Chen'', emergencyPhone = ''+23493445678''\<rparr>,
       photoUrl = Some ''https://i.pravatar.cc/100?img=5'', id_emp = fst r2\<rparr>,
      \<lparr>name = ''Zara Bello'', employeeId = ''EMP-003'', department = Marketing,
       role = Marketer, supervisor = Some ''Michael Chen'', status = Probation,
       contractType = Contract, hireDate = snd r3,
       contact = \<lparr>phone = ''+234-701-0000'', email = ''zarab@gmail.com'',
                  emergencyName = ''Faruq Bello'', emergencyPhone = ''+23420234461''\<rparr>,
       photoUrl = Some ''https://i.pravatar.cc/100?img=8'', id_emp = fst r3\<rparr>]"

text \<open>
  \<open>cached.length\<close>: reading a property of \<open>null\<close> throws; of any other value it gives the
  property or \<open>undefined\<close>.
\<close>

definition cached_length :: "json \<Rightarrow> js_error + json option" where
  "cached_length cached =
     (case cached of JNull \<Rightarrow> Inl TypeError | _ \<Rightarrow> Inr (js_get cached ''length''))"

text \<open>
  \<open>cached.filter(isEmployee)\<close>: only an array has the method; on any other value
  \<open>cached.filter\<close> is \<open>undefined\<close> or a stored value, and calling it throws.
\<close>

definition cached_filter :: "json \<Rightarrow> js_error + json list" where
  "cached_filter cached =
     (case cached of JArr xs \<Rightarrow> Inr (filter isEmployee xs) | _ \<Rightarrow> Inl TypeError)"

text \<open>
  The initializer of the \<open>employees\<close> state: the initial collection and the storage after
  it, or the exception that escapes it. \<open>seed\<close> is \<open>SEED\<close> as stored and read back.
\<close>

definition initEmployees ::
    "Employee list \<Rightarrow> localStorage \<Rightarrow> js_error + (json list \<times> localStorage)" where
  "initEmployees seed st =
     (let cached = loadJSON st LS_employees (JArr [])
      in case cached_length cached of
           Inl err \<Rightarrow> Inl err
         | Inr len \<Rightarrow>
             if js_truthy len
             then (case cached_filter cached of
                     Inl err \<Rightarrow> Inl err
                   | Inr kept \<Rightarrow> Inr (kept, st))
             else Inr (map Employee_json seed,
                       saveJSON st LS_employees (JArr (map Employee_json seed))))"

section \<open>JSON export\<close>

text \<open>
  \<open>exportJSON\<close>: the text of the blob offered as \<open>employees.json\<close>. \<open>stringify\<close> is
  \<open>JSON.stringify(\<cdot>, null, 2)\<close>, a function of the library.
\<close>

definition exportJSON :: "(json \<Rightarrow> string) \<Rightarrow> Dashboard \<Rightarrow> string" where
  "exportJSON stringify s = stringify (JArr (map Employee_json (employees s)))"

section \<open>What the sort relies on in \<open>localeCompare\<close>\<close>

text \<open>
  ECMAScript fixes the result of \<open>sort\<close> only for a consistent comparator. Of
  \<open>localeCompare\<close> the stability argument needs the part about ties: comparing equal is
  symmetric and transitive. Every collation has this property.
\<close>

definition ties_consistent :: "(string \<Rightarrow> string \<Rightarrow> int) \<Rightarrow> bool" where
  "ties_consistent lc =
     ((\<forall>a b. lc a b = 0 \<longrightarrow> lc b a = 0) \<and>
      (\<forall>a b c. lc a b = 0 \<longrightarrow> lc b c = 0 \<longrightarrow> lc a c = 0))"

section \<open>The CSV layout as the specification words it\<close>

text \<open>
  The fixed column names, the quoting rule (a field between double quotes, every double
  quote inside it doubled) and the flattened fields of one record with the optional
  fields defaulting to the empty string: written from the specification, to be compared
  with what \<open>exportCSV\<close> produces.
\<close>

definition spec_columns :: "string list" where
  "spec_columns =
     [''id'', ''name'', ''employeeId'', ''department'', ''role'', ''supervisor'', ''status'',
      ''contractType'', ''hireDate'', ''email'', ''phone'', ''emergencyName'',
      ''emergencyPhone'', ''photoUrl'']"

fun spec_double :: "string \<Rightarrow> string" where
  "spec_double [] = []"
| "spec_double (c # cs) =
     (if c = dquote then dquote # dquote # spec_double cs else c # spec_double cs)"

definition spec_quoted :: "string \<Rightarrow> string" where
  "spec_quoted v = dquote # spec_double v @ [dquote]"

definition spec_fields :: "Employee \<Rightarrow> string list" where
  "spec_fields e =
     [id_emp e, name e, employeeId e, Department_str (department e), Role_str (role e),
      (case supervisor e of None \<Rightarrow> [] | Some v \<Rightarrow> v),
      Status_str (status e), ContractType_str (contractType e), hireDate e,
      email (contact e), phone (contact e), emergencyName (contact e),
      emergencyPhone (contact e),
      (case photoUrl e of None \<Rightarrow> [] | Some v \<Rightarrow> v)]"

text \<open>
  The JSON export as the specification words it, a structurally faithful serialization
  of every field: the object of a record has each field of the record under its name
  as a string, the contact as an object of its four fields, and an optional field
  exactly when the record has it.
\<close>

definition record_in_json :: "Employee \<Rightarrow> json \<Rightarrow> bool" where
  "record_in_json e obj =
     (js_get obj ''id'' = Some (JStr (id_emp e)) \<and>
      js_get obj ''name'' = Some (JStr (name e)) \<and>
      js_get obj ''employeeId'' = Some (JStr (employeeId e)) \<and>
      js_get obj ''department'' = Some (JStr (Department_str (department e))) \<and>
      js_get obj ''role'' = Some (JStr (Role_str (role e))) \<and>
      js_get obj ''supervisor'' = map_option JStr (supervisor e) \<and>
      js_get obj ''status'' = Some (JStr (Status_str (status e))) \<and>
      js_get obj ''contractType'' = Some (JStr (ContractType_str (contractType e))) \<and>
      js_get obj ''hireDate'' = Some (JStr (hireDate e)) \<and>
      js_get obj ''photoUrl'' = map_option JStr (photoUrl e) \<and>
      (case js_get obj ''contact'' of
         None \<Rightarrow> False
       | Some c \<Rightarrow>
           js_get c ''phone'' = Some (JStr (phone (contact e))) \<and>
           js_get c ''email'' = Some (JStr (email (contact e))) \<and>
           js_get c ''emergencyName'' = Some (JStr (emergencyName (contact e))) \<and>
           js_get c ''emergencyPhone'' = Some (JStr (emergencyPhone (contact e)))))"

section \<open>Sample values\<close>

text \<open>
  The state of the component right after mounting, for a given role and collection: no
  search text, every filter on \<open>All\<close>, sorted by name ascending, the empty form.
\<close>

definition mounted :: "UserRole \<Rightarrow> Employee list \<Rightarrow> Dashboard" where
  "mounted r emps =
     \<lparr>userRole = r, employees = emps, q = [], fDept = ''All'', fRole = ''All'',
      fStatus = ''All'', fContract = ''All'', sortKey = SK_name, sortDir = Asc,
      form = emptyForm ''2026-01-01'', editingId = None\<rparr>"

definition sample_contact :: ContactInfo where
  "sample_contact =
     \<lparr>phone = ''555'', email = ''ann@example.org'', emergencyName = ''Bob'',
      emergencyPhone = ''556''\<rparr>"

text \<open>A record whose name is \<open>She said "hi"\<close> and that has no supervisor and no photo.\<close>

definition quoting_emp :: Employee where
  "quoting_emp =
     \<lparr>name = ''She said '' @ [dquote] @ ''hi'' @ [dquote], employeeId = ''EMP-9'',
      department = Sales, role = SalesRep, supervisor = None, status = OnLeave,
      contractType = Intern, hireDate = ''2026-01-01'', contact = sample_contact,
      photoUrl = None, id_emp = ''k1''\<rparr>"

text \<open>
  An environment for the examples: the collation is by character codes, \<open>toLowerCase\<close>
  and \<open>trim\<close> are the identity (the one search text used is lower case without blanks),
  and \<open>engine_sort\<close> is the stable sort (no example sorts by hire date).
\<close>

definition code_compare :: "string \<Rightarrow> string \<Rightarrow> int" where
  "code_compare a b = (if a = b then 0 else if str_gt a b then 1 else - 1)"

definition sample_env :: JsEnv where
  "sample_env =
     \<lparr>localeCompare = code_compare, toLowerCase = (\<lambda>v. v), trim = (\<lambda>v. v),
      engine_sort = js_sort\<rparr>"

text \<open>Two records with the same name, and a third with another name.\<close>

definition ann :: Employee where
  "ann =
     \<lparr>name = ''Ann'', employeeId = ''EMP-1'', department = Finance, role = Accountant,
      supervisor = Some ''Cy'', status = Active, contractType = Permanent,
      hireDate = ''2025-12-01'', contact = sample_contact, photoUrl = None, id_emp = ''e1''\<rparr>"

definition ann_twin :: Employee where
  "ann_twin = ann\<lparr>employeeId := ''EMP-2'', id_emp := ''e2''\<rparr>"

definition bo :: Employee where
  "bo = ann\<lparr>name := ''Bo'', employeeId := ''EMP-3'', id_emp := ''e3''\<rparr>"

text \<open>
  A clock for the examples: now is 2026-01-01T00:00:00Z, and four hire dates, 10 days
  after now and 20, 31 and 61 days before it.
\<close>

definition sample_now :: string where
  "sample_now = ''2026-01-01T00:00:00.000Z''"

definition sample_getTime :: "string \<Rightarrow> int option" where
  "sample_getTime =
     map_of [(''2026-01-01T00:00:00.000Z'', 1767225600000),
             (''2026-01-11'', 1768089600000),
             (''2025-12-12'', 1765497600000),
             (''2025-12-01'', 1764547200000),
             (''2025-11-01'', 1761955200000)]"

definition hired :: "string \<Rightarrow> string \<Rightarrow> Employee" where
  "hired i d = ann\<lparr>id_emp := i, hireDate := d\<rparr>"

definition sample_seed :: "Employee list" where
  "sample_seed =
     SEED (''u1'', ''2025-12-12T00:00:00.000Z'') (''u2'', ''2025-09-03T00:00:00.000Z'')
       (''u3'', ''2025-11-02T00:00:00.000Z'')"

text \<open>
  A stored record whose \<open>id\<close> is the empty string (\<open>isEmployee\<close> accepts it), and the
  state an administrator reaches from it by pressing Edit on the record and then
  deleting it: the form still holds the record, \<open>editingId\<close> is the empty string, and
  the collection no longer has a record with that \<open>id\<close>.
\<close>

definition blank_id_emp :: Employee where
  "blank_id_emp = ann\<lparr>id_emp := []\<rparr>"

definition stale_edit :: Dashboard where
  "stale_edit = fst (remove_emp True [] (startEdit [] (mounted Admin [blank_id_emp])))"

section \<open>Properties of the export\<close>

lemma esc_Some: "esc (Some v) = spec_quoted v"
  by (induction v) (simp_all add: esc_def spec_quoted_def)

lemma headers_csv_row_of: "map fst (csv_row_of e) = spec_columns"
  by (simp add: csv_row_of_def spec_columns_def)

lemma cells_csv_row_of:
  "map (\<lambda>h. esc (row_get (csv_row_of e) h)) spec_columns = map spec_quoted (spec_fields e)"
  by (simp add: csv_row_of_def spec_columns_def spec_fields_def row_get_def esc_Some)

text \<open>
  C7. For a collection that is not empty, the CSV export is the header line, which is the
  fixed column names in their order joined by commas, followed by one line per record, the
  lines joined by line feeds. A record's line is its fourteen fields in the column
  order, each between double quotes with every double quote inside doubled, joined by
  commas; a record without supervisor or photo has the empty string in that field.
\<close>

theorem exportCSV_layout:
  assumes "employees s \<noteq> []"
  shows "exportCSV s =
           join [CHR 0x0A]
             (join '','' spec_columns #
              map (\<lambda>e. join '','' (map spec_quoted (spec_fields e))) (employees s))"
proof -
  obtain e es where es: "employees s = e # es"
    using assms by (cases "employees s") auto
  show ?thesis
    by (simp add: exportCSV_def toCSV_def es headers_csv_row_of cells_csv_row_of o_def)
qed

text \<open>
  The layout at a record named \<open>She said "hi"\<close> without supervisor and photo: the name is
  exported as \<open>"She said ""hi"""\<close>, the two missing fields as \<open>""\<close>.
\<close>

theorem exportCSV_layout_witness:
  "employees (mounted Admin [quoting_emp]) \<noteq> [] \<and>
   exportCSV (mounted Admin [quoting_emp]) =
     ''id,name,employeeId,department,role,supervisor,status,contractType,hireDate,'' @
     ''email,phone,emergencyName,emergencyPhone,photoUrl'' @ [CHR 0x0A] @
     [dquote] @ ''k1'' @ [dquote] @ '','' @
     [dquote] @ ''She said '' @ [dquote, dquote] @ ''hi'' @ [dquote, dquote, dquote] @ '','' @
     [dquote] @ ''EMP-9'' @ [dquote] @ '','' @
     [dquote] @ ''Sales'' @ [dquote] @ '','' @
     [dquote] @ ''Sales Rep'' @ [dquote] @ '','' @
     [dquote, dquote] @ '','' @
     [dquote] @ ''On Leave'' @ [dquote] @ '','' @
     [dquote] @ ''Intern'' @ [dquote] @ '','' @
     [dquote] @ ''2026-01-01'' @ [dquote] @ '','' @
     [dquote] @ ''ann@example.org'' @ [dquote] @ '','' @
     [dquote] @ ''555'' @ [dquote] @ '','' @
     [dquote] @ ''Bob'' @ [dquote] @ '','' @
     [dquote] @ ''556'' @ [dquote] @ '','' @
     [dquote, dquote]"
proof -
  have ne: "employees (mounted Admin [quoting_emp]) \<noteq> []"
    by (simp add: mounted_def)
  show ?thesis
    using ne exportCSV_layout [OF ne]
    by (simp add: mounted_def quoting_emp_def sample_contact_def spec_columns_def
        spec_fields_def spec_quoted_def dquote_def)
qed

text \<open>
  C10. The CSV export of the empty collection is the empty string: \<open>toCSV\<close> returns before
  it builds the header line.
\<close>

theorem exportCSV_empty: "exportCSV (s\<lparr>employees := []\<rparr>) = []"
  by (simp add: exportCSV_def toCSV_def)

lemma record_in_json_Employee_json: "record_in_json e (Employee_json e)"
  by (cases "supervisor e"; cases "photoUrl e")
     (simp_all add: record_in_json_def Employee_json_def ContactInfo_json_def)

lemma exportCSV_text:
  "exportCSV s =
     (if employees s = [] then []
      else join [CHR 0x0A]
             (join '','' spec_columns #
              map (\<lambda>e. join '','' (map spec_quoted (spec_fields e))) (employees s)))"
proof (cases "employees s")
  case Nil
  then show ?thesis by (simp add: exportCSV_def toCSV_def)
next
  case (Cons e es)
  then show ?thesis
    by (simp add: exportCSV_def toCSV_def headers_csv_row_of cells_csv_row_of o_def)
qed

text \<open>
  C8. Whatever the search text, the four filters and the sort settings are, the CSV
  export of a collection that is not empty is the header line followed by the line of
  every record of the collection, in the collection's order (and the empty text for
  the empty collection); and the JSON export is the text of an array that has, for
  every record of the collection and in the same order, an object carrying each field
  of that record. Neither reads the rows of the table.
\<close>

theorem export_complete:
  "exportCSV (s\<lparr>q := a, fDept := b, fRole := c, fStatus := d, fContract := e,
              sortKey := k, sortDir := r\<rparr>) =
     (if employees s = [] then []
      else join [CHR 0x0A]
             (join '','' spec_columns #
              map (\<lambda>e. join '','' (map spec_quoted (spec_fields e))) (employees s))) \<and>
   exportJSON stringify (s\<lparr>q := a, fDept := b, fRole := c, fStatus := d, fContract := e,
                           sortKey := k, sortDir := r\<rparr>) =
     stringify (JArr (map Employee_json (employees s))) \<and>
   list_all2 record_in_json (employees s) (map Employee_json (employees s))"
proof -
  have rows: "list_all2 record_in_json xs (map Employee_json xs)" for xs
    by (induction xs) (simp_all add: record_in_json_Employee_json)
  show ?thesis
    using exportCSV_text [of "s\<lparr>q := a, fDept := b, fRole := c, fStatus := d, fContract := e,
              sortKey := k, sortDir := r\<rparr>"] rows [of "employees s"]
    by (simp add: exportJSON_def)
qed

text \<open>
  With a search text and a department filter that no record matches the table is empty;
  the CSV export is still the header and the lines of both records, and the JSON export
  the text of the array of both objects.
\<close>

theorem export_complete_witness:
  "filtered sample_env
     (mounted Admin [ann, bo]\<lparr>q := ''zz'', fDept := ''HR'', sortDir := Desc\<rparr>) = [] \<and>
   exportCSV (mounted Admin [ann, bo]\<lparr>q := ''zz'', fDept := ''HR'', sortDir := Desc\<rparr>) =
     ''id,name,employeeId,department,role,supervisor,status,contractType,hireDate,'' @
     ''email,phone,emergencyName,emergencyPhone,photoUrl'' @ [CHR 0x0A] @
     [dquote] @ ''e1'' @ [dquote] @ '','' @
     [dquote] @ ''Ann'' @ [dquote] @ '','' @
     [dquote] @ ''EMP-1'' @ [dquote] @ '','' @
     [dquote] @ ''Finance'' @ [dquote] @ '','' @
     [dquote] @ ''Accountant'' @ [dquote] @ '','' @
     [dquote] @ ''Cy'' @ [dquote] @ '','' @
     [dquote] @ ''Active'' @ [dquote] @ '','' @
     [dquote] @ ''Permanent'' @ [dquote] @ '','' @
     [dquote] @ ''2025-12-01'' @ [dquote] @ '','' @
     [dquote] @ ''ann@example.org'' @ [dquote] @ '','' @
     [dquote] @ ''555'' @ [dquote] @ '','' @
     [dquote] @ ''Bob'' @ [dquote] @ '','' @
     [dquote] @ ''556'' @ [dquote] @ '','' @
     [dquote, dquote] @ [CHR 0x0A] @
     [dquote] @ ''e3'' @ [dquote] @ '','' @
     [dquote] @ ''Bo'' @ [dquote] @ '','' @
     [dquote] @ ''EMP-3'' @ [dquote] @ '','' @
     [dquote] @ ''Finance'' @ [dquote] @ '','' @
     [dquote] @ ''Accountant'' @ [dquote] @ '','' @
     [dquote] @ ''Cy'' @ [dquote] @ '','' @
     [dquote] @ ''Active'' @ [dquote] @ '','' @
     [dquote] @ ''Permanent'' @ [dquote] @ '','' @
     [dquote] @ ''2025-12-01'' @ [dquote] @ '','' @
     [dquote] @ ''ann@example.org'' @ [dquote] @ '','' @
     [dquote] @ ''555'' @ [dquote] @ '','' @
     [dquote] @ ''Bob'' @ [dquote] @ '','' @
     [dquote] @ ''556'' @ [dquote] @ '','' @
     [dquote, dquote] \<and>
   (\<forall>stringify.
      exportJSON stringify
        (mounted Admin [ann, bo]\<lparr>q := ''zz'', fDept := ''HR'', sortDir := Desc\<rparr>) =
      stringify
        (JArr
          [JObj [(''id'', JStr ''e1''), (''name'', JStr ''Ann''), (''employeeId'', JStr ''EMP-1''),
              (''department'', JStr ''Finance''), (''role'', JStr ''Accountant''),
              (''supervisor'', JStr ''Cy''), (''status'', JStr ''Active''),
              (''contractType'', JStr ''Permanent''), (''hireDate'', JStr ''2025-12-01''),
              (''contact'',
               JObj [(''phone'', JStr ''555''), (''email'', JStr ''ann@example.org''),
                     (''emergencyName'', JStr ''Bob''), (''emergencyPhone'', JStr ''556'')])],
           JObj [(''id'', JStr ''e3''), (''name'', JStr ''Bo''), (''employeeId'', JStr ''EMP-3''),
              (''department'', JStr ''Finance''), (''role'', JStr ''Accountant''),
              (''supervisor'', JStr ''Cy''), (''status'', JStr ''Active''),
              (''contractType'', JStr ''Permanent''), (''hireDate'', JStr ''2025-12-01''),
              (''contact'',
               JObj [(''phone'', JStr ''555''), (''email'', JStr ''ann@example.org''),
                     (''emergencyName'', JStr ''Bob''), (''emergencyPhone'', JStr ''556'')])]]))"
proof -
  have view: "filtered sample_env
     (mounted Admin [ann, bo]\<lparr>q := ''zz'', fDept := ''HR'', sortDir := Desc\<rparr>) = []"
    by (simp add: filtered_def matching_def sortByKey_def mounted_def sample_env_def ann_def
        bo_def sample_contact_def)
  have st: "mounted Admin [ann, bo]\<lparr>q := ''zz'', fDept := ''HR'', sortDir := Desc\<rparr> =
        mounted Admin [ann, bo]\<lparr>q := ''zz'', fDept := ''HR'', fRole := ''All'',
          fStatus := ''All'', fContract := ''All'', sortKey := SK_name, sortDir := Desc\<rparr>"
    by (simp add: mounted_def)
  have emps: "employees (mounted Admin [ann, bo]) = [ann, bo]"
    by (simp add: mounted_def)
  note all =
    export_complete [where s = "mounted Admin [ann, bo]" and a = "''zz''" and b = "''HR''"
      and c = "''All''" and d = "''All''" and e = "''All''" and k = SK_name and r = Desc,
      folded st, unfolded emps]
  have csv: "exportCSV (mounted Admin [ann, bo]\<lparr>q := ''zz'', fDept := ''HR'', sortDir := Desc\<rparr>) =
     ''id,name,employeeId,department,role,supervisor,status,contractType,hireDate,'' @
     ''email,phone,emergencyName,emergencyPhone,photoUrl'' @ [CHR 0x0A] @
     [dquote] @ ''e1'' @ [dquote] @ '','' @
     [dquote] @ ''Ann'' @ [dquote] @ '','' @
     [dquote] @ ''EMP-1'' @ [dquote] @ '','' @
     [dquote] @ ''Finance'' @ [dquote] @ '','' @
     [dquote] @ ''Accountant'' @ [dquote] @ '','' @
     [dquote] @ ''Cy'' @ [dquote] @ '','' @
     [dquote] @ ''Active'' @ [dquote] @ '','' @
     [dquote] @ ''Permanent'' @ [dquote] @ '','' @
     [dquote] @ ''2025-12-01'' @ [dquote] @ '','' @
     [dquote] @ ''ann@example.org'' @ [dquote] @ '','' @
     [dquote] @ ''555'' @ [dquote] @ '','' @
     [dquote] @ ''Bob'' @ [dquote] @ '','' @
     [dquote] @ ''556'' @ [dquote] @ '','' @
     [dquote, dquote] @ [CHR 0x0A] @
     [dquote] @ ''e3'' @ [dquote] @ '','' @
     [dquote] @ ''Bo'' @ [dquote] @ '','' @
     [dquote] @ ''EMP-3'' @ [dquote] @ '','' @
     [dquote] @ ''Finance'' @ [dquote] @ '','' @
     [dquote] @ ''Accountant'' @ [dquote] @ '','' @
     [dquote] @ ''Cy'' @ [dquote] @ '','' @
     [dquote] @ ''Active'' @ [dquote] @ '','' @
     [dquote] @ ''Permanent'' @ [dquote] @ '','' @
     [dquote] @ ''2025-12-01'' @ [dquote] @ '','' @
     [dquote] @ ''ann@example.org'' @ [dquote] @ '','' @
     [dquote] @ ''555'' @ [dquote] @ '','' @
     [dquote] @ ''Bob'' @ [dquote] @ '','' @
     [dquote] @ ''556'' @ [dquote] @ '','' @
     [dquote, dquote]"
    using all
    by (simp add: spec_columns_def spec_fields_def spec_quoted_def dquote_def ann_def bo_def
        sample_contact_def)
  have json: "exportJSON stringify
        (mounted Admin [ann, bo]\<lparr>q := ''zz'', fDept := ''HR'', sortDir := Desc\<rparr>) =
      stringify
        (JArr
          [JObj [(''id'', JStr ''e1''), (''name'', JStr ''Ann''), (''employeeId'', JStr ''EMP-1''),
              (''department'', JStr ''Finance''), (''role'', JStr ''Accountant''),
              (''supervisor'', JStr ''Cy''), (''status'', JStr ''Active''),
              (''contractType'', JStr ''Permanent''), (''hireDate'', JStr ''2025-12-01''),
              (''contact'',
               JObj [(''phone'', JStr ''555''), (''email'', JStr ''ann@example.org''),
                     (''emergencyName'', JStr ''Bob''), (''emergencyPhone'', JStr ''556'')])],
           JObj [(''id'', JStr ''e3''), (''name'', JStr ''Bo''), (''employeeId'', JStr ''EMP-3''),
              (''department'', JStr ''Finance''), (''role'', JStr ''Accountant''),
              (''supervisor'', JStr ''Cy''), (''status'', JStr ''Active''),
              (''contractType'', JStr ''Permanent''), (''hireDate'', JStr ''2025-12-01''),
              (''contact'',
               JObj [(''phone'', JStr ''555''), (''email'', JStr ''ann@example.org''),
                     (''emergencyName'', JStr ''Bob''), (''emergencyPhone'', JStr ''556'')])]])" for stringify
    using all [of stringify]
    by (simp add: Employee_json_def ContactInfo_json_def ann_def bo_def sample_contact_def)
  show ?thesis
    using view csv json by blast
qed

section \<open>Properties of the mutations\<close>

text \<open>
  C1 (amended). When the user role is not admin, \<open>upsert\<close> (create and update alike) and
  \<open>remove\<close> leave every state cell as it was, the collection included, and the refusal
  is silent: \<open>remove\<close> does nothing at all and \<open>upsert\<close> only calls \<open>preventDefault\<close>. No
  alert is raised, which is how the outcome differs from a validation failure.
\<close>

theorem refusal_is_silent:
  assumes "\<not> canEdit s"
  shows "upsert newId today s = (s, [PreventDefault]) \<and>
         remove_emp answer i s = (s, []) \<and>
         Alert alert_msg \<notin> set (snd (upsert newId today s))"
  using assms by (simp add: upsert_def remove_emp_def)

theorem refusal_is_silent_witness:
  "\<not> canEdit (mounted Viewer [ann]\<lparr>form := form_of ann_twin\<rparr>) \<and>
   upsert ''n1'' ''2026-01-02'' (mounted Viewer [ann]\<lparr>form := form_of ann_twin\<rparr>) =
     (mounted Viewer [ann]\<lparr>form := form_of ann_twin\<rparr>, [PreventDefault]) \<and>
   remove_emp True ''e1'' (mounted Viewer [ann]\<lparr>form := form_of ann_twin\<rparr>) =
     (mounted Viewer [ann]\<lparr>form := form_of ann_twin\<rparr>, [])"
proof -
  have v: "\<not> canEdit (mounted Viewer [ann]\<lparr>form := form_of ann_twin\<rparr>)"
    by (simp add: canEdit_def mounted_def)
  show ?thesis
    using v refusal_is_silent [OF v, of "''n1''" "''2026-01-02''" True "''e1''"]
    by simp
qed

text \<open>
  C1 as stated fails: nothing signals the refusal. For a viewer, deleting an existing
  record returns the state unchanged with no call to \<open>alert\<close> or \<open>confirm\<close>, and submitting
  the empty form returns it unchanged with \<open>preventDefault\<close> as the only call.
\<close>

theorem refusal_unsignalled:
  "userRole (mounted Viewer [ann]) = Viewer \<and>
   remove_emp True ''e1'' (mounted Viewer [ann]) = (mounted Viewer [ann], []) \<and>
   upsert ''n1'' ''2026-01-02'' (mounted Viewer [ann]) = (mounted Viewer [ann], [PreventDefault])"
  by (simp add: remove_emp_def upsert_def canEdit_def mounted_def)

text \<open>
  C5. When the form has an empty name, an empty employee id or an empty email, \<open>upsert\<close>
  leaves the collection as it is; and when the user may edit, it raises the alert
  \<open>Please fill name, employee ID and email.\<close> and changes no state cell at all. This holds
  whether \<open>editingId\<close> is set (update) or not (create).
\<close>

theorem validation_failure:
  assumes "name (form s) = [] \<or> employeeId (form s) = [] \<or> email (contact (form s)) = []"
  shows "employees (fst (upsert newId today s)) = employees s \<and>
         (canEdit s \<longrightarrow> upsert newId today s = (s, [PreventDefault, Alert alert_msg]))"
  using assms by (simp add: upsert_def)

text \<open>Create with the empty form (the name is empty) on a collection of two records.\<close>

theorem validation_failure_witness:
  "name (form (mounted Admin [ann, bo])) = [] \<and>
   canEdit (mounted Admin [ann, bo]) \<and>
   employees (fst (upsert ''n1'' ''2026-01-02'' (mounted Admin [ann, bo]))) = [ann, bo] \<and>
   upsert ''n1'' ''2026-01-02'' (mounted Admin [ann, bo]) =
     (mounted Admin [ann, bo], [PreventDefault, Alert alert_msg])"
proof -
  have inv: "name (form (mounted Admin [ann, bo])) = [] \<or>
      employeeId (form (mounted Admin [ann, bo])) = [] \<or>
      email (contact (form (mounted Admin [ann, bo]))) = []"
    by (simp add: mounted_def emptyForm_def)
  have adm: "canEdit (mounted Admin [ann, bo])"
    by (simp add: canEdit_def mounted_def)
  have emps: "employees (mounted Admin [ann, bo]) = [ann, bo]"
    by (simp add: mounted_def)
  have nm: "name (form (mounted Admin [ann, bo])) = []"
    by (simp add: mounted_def emptyForm_def)
  show ?thesis
    using validation_failure [OF inv, of "''n1''" "''2026-01-02''"] adm emps nm
    by simp
qed

text \<open>
  An update whose \<open>editingId\<close> is a non-empty string that no record has as its \<open>id\<close> maps
  every record to itself.
\<close>

lemma map_merge_absent:
  "i \<notin> id_emp ` set xs \<Longrightarrow> map (\<lambda>x. if id_emp x = i then merge_form x f else x) xs = xs"
  by (induction xs) auto

lemma update_missing_id:
  assumes "editingId s = Some i" and "i \<noteq> []" and "i \<notin> id_emp ` set (employees s)"
  shows "employees (fst (upsert newId today s)) = employees s"
  using assms by (simp add: upsert_def Let_def map_merge_absent)

lemma stale_edit_eq:
  "stale_edit = mounted Admin []\<lparr>form := form_of blank_id_emp, editingId := Some []\<rparr>"
  by (simp add: stale_edit_def remove_emp_def startEdit_def mounted_def blank_id_emp_def
      canEdit_def)

text \<open>
  C6 fails for the empty \<open>id\<close>. In the state \<open>stale_edit\<close> the update is for the \<open>id\<close> \<open>""\<close>,
  which no record of the (empty) collection has. The test \<open>if (editingId)\<close> treats the
  empty string as \<open>null\<close>, so \<open>upsert\<close> takes the create branch and the collection gains a
  record.
\<close>

theorem update_blank_id_creates:
  "editingId stale_edit = Some [] \<and>
   [] \<notin> id_emp ` set (employees stale_edit) \<and>
   employees stale_edit = [] \<and>
   employees (fst (upsert ''n1'' ''2026-01-02'' stale_edit)) = [blank_id_emp]"
  by (simp add: stale_edit_eq upsert_def mounted_def canEdit_def form_of_def blank_id_emp_def
      ann_def sample_contact_def new_employee_def)

section \<open>Properties of the query view\<close>

lemma key_cmp_ties:
  assumes "ties_consistent lc"
    and "key_cmp lc key r x = 0" and "key_cmp lc key r y = 0"
  shows "key_cmp lc key x y = 0"
  using assms unfolding ties_consistent_def key_cmp_def Let_def
  by (metis (full_types))

text \<open>
  Inserting into a list does not disturb the elements that tie with \<open>r\<close>: an element the
  new one is moved behind compares greater, so the two cannot both tie with \<open>r\<close>.
\<close>

lemma filter_insert_by:
  assumes "\<And>a b. cmp r a = 0 \<Longrightarrow> cmp r b = 0 \<Longrightarrow> cmp a b = 0"
  shows "filter (\<lambda>e. cmp r e = 0) (insert_by cmp x ys) = filter (\<lambda>e. cmp r e = 0) (x # ys)"
proof (induction ys)
  case Nil
  show ?case by simp
next
  case (Cons y ys)
  show ?case
  proof (cases "cmp x y \<le> 0")
    case True
    then show ?thesis by simp
  next
    case False
    then have "\<not> (cmp r x = 0 \<and> cmp r y = 0)"
      using assms [of x y] by auto
    with False Cons.IH show ?thesis by auto
  qed
qed

lemma filter_js_sort:
  assumes "\<And>a b. cmp r a = 0 \<Longrightarrow> cmp r b = 0 \<Longrightarrow> cmp a b = 0"
  shows "filter (\<lambda>e. cmp r e = 0) (js_sort cmp xs) = filter (\<lambda>e. cmp r e = 0) xs"
  by (induction xs) (simp_all add: filter_insert_by [of cmp r, OF assms])

text \<open>
  C2 (amended). For the sort keys \<open>name\<close> and \<open>employeeId\<close>, take any record \<open>r\<close> and the
  records of the view whose key compares equal to the key of \<open>r\<close>. Ascending, they stand
  in the view in the order they have among the rows that passed the filters; descending,
  they stand in the reverse of that order, because the descending view is the ascending
  one reversed. (For \<open>hireDate\<close> the comparator never returns 0, and the order of ties is
  the engine's; nothing is stated about it.)
\<close>

theorem ties_in_view:
  assumes "ties_consistent (localeCompare env)" and "sortKey s \<noteq> SK_hireDate"
  shows "filter (\<lambda>e. key_cmp (localeCompare env) (key_of (sortKey s)) r e = 0) (filtered env s) =
         (if sortDir s = Asc
          then filter (\<lambda>e. key_cmp (localeCompare env) (key_of (sortKey s)) r e = 0)
                 (matching env s)
          else rev (filter (\<lambda>e. key_cmp (localeCompare env) (key_of (sortKey s)) r e = 0)
                      (matching env s)))"
proof -
  let ?cmp = "key_cmp (localeCompare env) (key_of (sortKey s))"
  have st: "filter (\<lambda>e. ?cmp r e = 0) (js_sort ?cmp xs) = filter (\<lambda>e. ?cmp r e = 0) xs" for xs
    by (rule filter_js_sort) (rule key_cmp_ties [OF assms(1)])
  have rv: "filter (\<lambda>e. ?cmp r e = 0) (rev (js_sort ?cmp xs)) =
            rev (filter (\<lambda>e. ?cmp r e = 0) xs)" for xs
  proof -
    have "filter (\<lambda>e. ?cmp r e = 0) (rev (js_sort ?cmp xs)) =
          rev (filter (\<lambda>e. ?cmp r e = 0) (js_sort ?cmp xs))"
      by (simp only: rev_filter)
    also have "\<dots> = rev (filter (\<lambda>e. ?cmp r e = 0) xs)"
      by (simp only: st)
    finally show ?thesis .
  qed
  show ?thesis
    using assms(2) by (simp add: filtered_def sortByKey_def Let_def st rv del: rev_filter)
qed

lemma ties_consistent_code_compare: "ties_consistent code_compare"
  by (simp add: ties_consistent_def code_compare_def)

lemma matching_sample:
  "matching sample_env (mounted Admin [ann, bo, ann_twin]\<lparr>sortDir := dir\<rparr>) = [ann, bo, ann_twin]"
  by (simp add: matching_def mounted_def sample_env_def)

text \<open>
  The records \<open>ann\<close>, \<open>bo\<close>, \<open>ann_twin\<close> sorted by name: the two records named Ann stand in
  their input order in the ascending view and in the opposite order in the descending
  one.
\<close>

theorem ties_in_view_witness:
  "ties_consistent (localeCompare sample_env) \<and>
   sortKey (mounted Admin [ann, bo, ann_twin]) \<noteq> SK_hireDate \<and>
   filter (\<lambda>e. key_cmp code_compare name ann e = 0)
     (filtered sample_env (mounted Admin [ann, bo, ann_twin]\<lparr>sortDir := Asc\<rparr>)) = [ann, ann_twin] \<and>
   filter (\<lambda>e. key_cmp code_compare name ann e = 0)
     (filtered sample_env (mounted Admin [ann, bo, ann_twin]\<lparr>sortDir := Desc\<rparr>)) = [ann_twin, ann]"
proof -
  have tc: "ties_consistent (localeCompare sample_env)"
    by (simp add: sample_env_def ties_consistent_code_compare)
  have k: "sortKey (mounted Admin [ann, bo, ann_twin]\<lparr>sortDir := dir\<rparr>) \<noteq> SK_hireDate" for dir
    by (simp add: mounted_def)
  have k0: "sortKey (mounted Admin [ann, bo, ann_twin]) \<noteq> SK_hireDate"
    by (simp add: mounted_def)
  have sk: "sortKey (mounted Admin [ann, bo, ann_twin]\<lparr>sortDir := dir\<rparr>) = SK_name" for dir
    by (simp add: mounted_def)
  have sd: "sortDir (mounted Admin [ann, bo, ann_twin]\<lparr>sortDir := dir\<rparr>) = dir" for dir
    by simp
  have lc: "localeCompare sample_env = code_compare"
    by (simp add: sample_env_def)
  have tied: "filter (\<lambda>e. key_cmp code_compare name ann e = 0) [ann, bo, ann_twin] = [ann, ann_twin]"
    by (simp add: key_cmp_def code_compare_def ann_def bo_def ann_twin_def)
  note up =
    ties_in_view [OF tc k [of Asc], of ann,
      unfolded sk sd lc matching_sample key_of.simps tied]
  note down =
    ties_in_view [OF tc k [of Desc], of ann,
      unfolded sk sd lc matching_sample key_of.simps tied]
  show ?thesis
    using tc k0 up down by simp
qed

text \<open>
  C2 as stated fails for the descending direction: \<open>ann\<close> and \<open>ann_twin\<close> have the same
  name and enter in this order, and the view sorted by name descending lists \<open>ann_twin\<close>
  before \<open>ann\<close>.
\<close>

theorem descending_reverses_ties:
  "name ann = name ann_twin \<and>
   matching sample_env (mounted Admin [ann, bo, ann_twin]\<lparr>sortDir := Desc\<rparr>) =
     [ann, bo, ann_twin] \<and>
   filtered sample_env (mounted Admin [ann, bo, ann_twin]\<lparr>sortDir := Desc\<rparr>) =
     [bo, ann_twin, ann]"
  by (simp add: filtered_def matching_def sortByKey_def mounted_def sample_env_def key_cmp_def
      code_compare_def ann_twin_def ann_def bo_def)

section \<open>Properties of the aggregates\<close>

text \<open>
  C3 (amended). The newly hired count is the number of records for which the rounded
  whole-day difference from the hire date to now exists and is at most 30. A record
  whose hire date lies after now has a difference of at most 0 and is counted.
\<close>

theorem newlyHired_counts:
  assumes "getTime nowIso = Some b"
  shows "newlyHired getTime nowIso s =
           length (filter (\<lambda>e. \<exists>d. daysBetween getTime (hireDate e) nowIso = Some d \<and> d \<le> 30)
                     (employees s)) \<and>
         (\<forall>e a. getTime (hireDate e) = Some a \<and> b < a \<longrightarrow>
            (\<exists>d. daysBetween getTime (hireDate e) nowIso = Some d \<and> d \<le> 0) \<and>
            is_new getTime nowIso e)"
proof -
  have "is_new getTime nowIso =
        (\<lambda>e. \<exists>d. daysBetween getTime (hireDate e) nowIso = Some d \<and> d \<le> 30)"
    by (auto simp: is_new_def fun_eq_iff split: option.splits)
  then have A: "newlyHired getTime nowIso s =
           length (filter (\<lambda>e. \<exists>d. daysBetween getTime (hireDate e) nowIso = Some d \<and> d \<le> 30)
                     (employees s))"
    by (simp add: newlyHired_def)
  have B: "(\<exists>d. daysBetween getTime (hireDate e) nowIso = Some d \<and> d \<le> 0) \<and>
           is_new getTime nowIso e"
    if "getTime (hireDate e) = Some a" "b < a" for e a
  proof -
    have "(2 * (b - a) + 86400000) div (2 * 86400000) \<le> 0"
      using that(2) by simp
    then show ?thesis
      using that(1) assms by (simp add: is_new_def daysBetween_def)
  qed
  show ?thesis using A B by blast
qed

text \<open>
  Four records hired 10 days after now and 20, 31 and 61 days before it: the first two
  are counted.
\<close>

theorem newlyHired_counts_witness:
  "sample_getTime sample_now = Some 1767225600000 \<and>
   newlyHired sample_getTime sample_now
     (mounted Admin [hired ''h1'' ''2026-01-11'', hired ''h2'' ''2025-12-12'',
                     hired ''h3'' ''2025-12-01'', hired ''h4'' ''2025-11-01'']) = 2 \<and>
   sample_getTime (hireDate (hired ''h1'' ''2026-01-11'')) = Some 1768089600000 \<and>
   is_new sample_getTime sample_now (hired ''h1'' ''2026-01-11'')"
proof -
  have now: "sample_getTime sample_now = Some 1767225600000"
    by (simp add: sample_getTime_def sample_now_def)
  have h1: "sample_getTime (hireDate (hired ''h1'' ''2026-01-11'')) = Some 1768089600000"
    by (simp add: sample_getTime_def hired_def)
  have days:
    "daysBetween sample_getTime ''2026-01-11'' sample_now = Some (- 10)"
    "daysBetween sample_getTime ''2025-12-12'' sample_now = Some 20"
    "daysBetween sample_getTime ''2025-12-01'' sample_now = Some 31"
    "daysBetween sample_getTime ''2025-11-01'' sample_now = Some 61"
    by (simp_all add: daysBetween_def sample_getTime_def sample_now_def)
  have emps: "employees (mounted Admin xs) = xs" for xs
    by (simp add: mounted_def)
  have hd: "hireDate (hired i d) = d" for i d
    by (simp add: hired_def)
  have cnt: "newlyHired sample_getTime sample_now
       (mounted Admin [hired ''h1'' ''2026-01-11'', hired ''h2'' ''2025-12-12'',
                       hired ''h3'' ''2025-12-01'', hired ''h4'' ''2025-11-01'']) =
     length (filter (\<lambda>e. \<exists>d. daysBetween sample_getTime (hireDate e) sample_now = Some d \<and> d \<le> 30)
       (employees (mounted Admin [hired ''h1'' ''2026-01-11'', hired ''h2'' ''2025-12-12'',
                       hired ''h3'' ''2025-12-01'', hired ''h4'' ''2025-11-01'']))) \<and>
     (\<forall>e a. sample_getTime (hireDate e) = Some a \<and> 1767225600000 < a \<longrightarrow>
        (\<exists>d. daysBetween sample_getTime (hireDate e) sample_now = Some d \<and> d \<le> 0) \<and>
        is_new sample_getTime sample_now e)"
    using now by (rule newlyHired_counts)
  from cnt have c1: "newlyHired sample_getTime sample_now
     (mounted Admin [hired ''h1'' ''2026-01-11'', hired ''h2'' ''2025-12-12'',
                     hired ''h3'' ''2025-12-01'', hired ''h4'' ''2025-11-01'']) = 2"
    by (simp add: emps hd days)
  from cnt h1 have c2: "is_new sample_getTime sample_now (hired ''h1'' ''2026-01-11'')"
    by simp
  show ?thesis
    using now c1 h1 c2 by simp
qed

text \<open>
  C3 as stated fails: a record hired 10 days after now has the day difference -10 and
  is counted as newly hired; of the two records here it is the only one counted.
\<close>

theorem future_hire_counted:
  "daysBetween sample_getTime ''2026-01-11'' sample_now = Some (- 10) \<and>
   daysBetween sample_getTime ''2025-11-01'' sample_now = Some 61 \<and>
   newlyHired sample_getTime sample_now
     (mounted Admin [hired ''h1'' ''2026-01-11'', hired ''h4'' ''2025-11-01'']) = 1"
  by (simp add: newlyHired_def is_new_def daysBetween_def sample_getTime_def sample_now_def
      mounted_def hired_def)

section \<open>Properties of loading\<close>

lemma isEmployee_Employee_json: "isEmployee (Employee_json e)"
  by (cases "supervisor e"; cases "photoUrl e")
     (simp_all add: isEmployee_def Employee_json_def ContactInfo_json_def)

text \<open>
  A stored array that is not empty is loaded as its entries that pass \<open>isEmployee\<close>, in
  their order, and the storage is not written.
\<close>

lemma init_array:
  assumes "st LS_employees = Some (Parsed (JArr xs))" and "xs \<noteq> []"
  shows "initEmployees seed st = Inr (filter isEmployee xs, st)"
  using assms by (simp add: initEmployees_def loadJSON_def cached_length_def cached_filter_def)

lemma init_mixed_array:
  "initEmployees seed
     (Map.empty(LS_employees \<mapsto>
        Parsed (JArr [JObj [(''id'', JNum 7)], Employee_json ann, JNull, JStr ''x'']))) =
   Inr ([Employee_json ann],
        Map.empty(LS_employees \<mapsto>
          Parsed (JArr [JObj [(''id'', JNum 7)], Employee_json ann, JNull, JStr ''x''])))"
  by (simp add: init_array isEmployee_Employee_json) (simp add: isEmployee_def)

text \<open>
  C4 fails for stored values that are not arrays. When the stored text is \<open>null\<close>,
  \<open>loadJSON\<close> returns \<open>null\<close> and the read of \<open>cached.length\<close> throws; when it is a JSON
  string that is not empty, \<open>cached.length\<close> is a positive number and the call of
  \<open>cached.filter\<close> throws. Neither exception is caught.
\<close>

theorem init_throws:
  "initEmployees seed (Map.empty(LS_employees \<mapsto> Parsed JNull)) = Inl TypeError \<and>
   initEmployees seed (Map.empty(LS_employees \<mapsto> Parsed (JStr ''[]''))) = Inl TypeError"
  by (simp add: initEmployees_def loadJSON_def cached_length_def cached_filter_def)

text \<open>
  C9 (amended). A stored array that is not empty is loaded as its entries that pass
  \<open>isEmployee\<close> and the storage is not written; when no entry passes, that is the empty
  collection, not the seed. The seed is installed (returned, and written to the
  storage) when there is no stored item, when the stored text does not parse, when it
  is the empty array, and also when it is any other value whose \<open>length\<close> is missing or
  falsy: a boolean, a number, the empty string, or an object without a truthy \<open>length\<close>
  property. And only then: whenever the initializer returns and has written the
  storage, the stored value was one of these and the collection is the seed.
\<close>

theorem init_cases:
  "(st LS_employees = Some (Parsed (JArr xs)) \<and> xs \<noteq> [] \<longrightarrow>
      initEmployees seed st = Inr (filter isEmployee xs, st) \<and>
      ((\<forall>x\<in>set xs. \<not> isEmployee x) \<longrightarrow> initEmployees seed st = Inr ([], st))) \<and>
   (st LS_employees = None \<or> st LS_employees = Some Unparseable \<or>
    st LS_employees = Some (Parsed (JArr [])) \<or>
    st LS_employees = Some (Parsed (JBool b)) \<or>
    st LS_employees = Some (Parsed (JNum n)) \<or>
    st LS_employees = Some (Parsed (JStr [])) \<or>
    (st LS_employees = Some (Parsed (JObj kvs)) \<and> \<not> js_truthy (map_of kvs ''length'')) \<longrightarrow>
      initEmployees seed st =
        Inr (map Employee_json seed,
             st(LS_employees \<mapsto> Parsed (JArr (map Employee_json seed))))) \<and>
   (initEmployees seed st = Inr (loaded, st') \<and> st' \<noteq> st \<longrightarrow>
      loaded = map Employee_json seed \<and>
      st' = st(LS_employees \<mapsto> Parsed (JArr (map Employee_json seed))) \<and>
      (st LS_employees = None \<or> st LS_employees = Some Unparseable \<or>
       st LS_employees = Some (Parsed (JArr [])) \<or>
       (\<exists>b'. st LS_employees = Some (Parsed (JBool b'))) \<or>
       (\<exists>n'. st LS_employees = Some (Parsed (JNum n'))) \<or>
       st LS_employees = Some (Parsed (JStr [])) \<or>
       (\<exists>kvs'. st LS_employees = Some (Parsed (JObj kvs')) \<and>
               \<not> js_truthy (map_of kvs' ''length''))))"
proof -
  have A: "initEmployees seed st = Inr (filter isEmployee xs, st) \<and>
           ((\<forall>x\<in>set xs. \<not> isEmployee x) \<longrightarrow> initEmployees seed st = Inr ([], st))"
    if "st LS_employees = Some (Parsed (JArr xs))" "xs \<noteq> []"
  proof -
    have kept: "initEmployees seed st = Inr (filter isEmployee xs, st)"
      using init_array [of st xs seed] that by simp
    have "filter isEmployee xs = []" if "\<forall>x\<in>set xs. \<not> isEmployee x"
      using that by (simp add: filter_empty_conv)
    with kept show ?thesis by simp
  qed
  have B: "initEmployees seed st =
        Inr (map Employee_json seed, st(LS_employees \<mapsto> Parsed (JArr (map Employee_json seed))))"
    if "st LS_employees = None \<or> st LS_employees = Some Unparseable \<or>
        st LS_employees = Some (Parsed (JArr [])) \<or>
        st LS_employees = Some (Parsed (JBool b)) \<or>
        st LS_employees = Some (Parsed (JNum n)) \<or>
        st LS_employees = Some (Parsed (JStr [])) \<or>
        (st LS_employees = Some (Parsed (JObj kvs)) \<and> \<not> js_truthy (map_of kvs ''length''))"
    using that
    by (auto simp: initEmployees_def loadJSON_def cached_length_def saveJSON_def)
  have C: "loaded = map Employee_json seed \<and>
      st' = st(LS_employees \<mapsto> Parsed (JArr (map Employee_json seed))) \<and>
      (st LS_employees = None \<or> st LS_employees = Some Unparseable \<or>
       st LS_employees = Some (Parsed (JArr [])) \<or>
       (\<exists>b'. st LS_employees = Some (Parsed (JBool b'))) \<or>
       (\<exists>n'. st LS_employees = Some (Parsed (JNum n'))) \<or>
       st LS_employees = Some (Parsed (JStr [])) \<or>
       (\<exists>kvs'. st LS_employees = Some (Parsed (JObj kvs')) \<and>
               \<not> js_truthy (map_of kvs' ''length'')))"
    if "initEmployees seed st = Inr (loaded, st')" "st' \<noteq> st"
    using that
    by (auto simp: initEmployees_def loadJSON_def cached_length_def cached_filter_def
        saveJSON_def split: option.splits stored.splits json.splits if_splits)
  show ?thesis
    using A B C by blast
qed

text \<open>
  An array of two entries that both fail \<open>isEmployee\<close> is loaded as the empty collection;
  with nothing stored, the seed is installed, and the storage differs afterwards.
\<close>

theorem init_cases_witness:
  "(Map.empty(LS_employees \<mapsto> Parsed (JArr [JNull, JObj [(''id'', JNum 7)]]))) LS_employees =
     Some (Parsed (JArr [JNull, JObj [(''id'', JNum 7)]])) \<and>
   \<not> isEmployee JNull \<and> \<not> isEmployee (JObj [(''id'', JNum 7)]) \<and>
   initEmployees sample_seed
     (Map.empty(LS_employees \<mapsto> Parsed (JArr [JNull, JObj [(''id'', JNum 7)]]))) =
     Inr ([], Map.empty(LS_employees \<mapsto> Parsed (JArr [JNull, JObj [(''id'', JNum 7)]]))) \<and>
   initEmployees sample_seed Map.empty =
     Inr (map Employee_json sample_seed,
          Map.empty(LS_employees \<mapsto> Parsed (JArr (map Employee_json sample_seed)))) \<and>
   Map.empty(LS_employees \<mapsto> Parsed (JArr (map Employee_json sample_seed))) \<noteq> Map.empty \<and>
   (Map.empty :: localStorage) LS_employees = None"
proof -
  have bad: "\<not> isEmployee JNull" "\<not> isEmployee (JObj [(''id'', JNum 7)])"
    by (simp_all add: isEmployee_def)
  note arr =
    init_cases [where st =
        "Map.empty(LS_employees \<mapsto> Parsed (JArr [JNull, JObj [(''id'', JNum 7)]]))"
      and xs = "[JNull, JObj [(''id'', JNum 7)]]" and seed = sample_seed]
  note none =
    init_cases [where st = Map.empty and seed = sample_seed
      and loaded = "map Employee_json sample_seed"
      and st' = "Map.empty(LS_employees \<mapsto> Parsed (JArr (map Employee_json sample_seed)))"]
  show ?thesis
    using bad arr none by simp
qed

text \<open>
  C9 as stated fails: the stored text \<open>42\<close> is present, parses, and is not an empty
  array, and the seed is installed.
\<close>

theorem seed_for_number:
  "initEmployees sample_seed (Map.empty(LS_employees \<mapsto> Parsed (JNum 42))) =
     Inr (map Employee_json sample_seed,
          Map.empty(LS_employees \<mapsto> Parsed (JArr (map Employee_json sample_seed))))"
  by (simp add: initEmployees_def loadJSON_def cached_length_def saveJSON_def)

end
